theory Spec2Isabelle
  imports Main "HOL-Library.AList" "HOL-Library.Sublist"
begin

section \<open>Values, errors and the outside world\<close>

text \<open>
  The Python values the modelled code handles: what \<^verbatim>\<open>json.loads\<close> returns
  (\<^verbatim>\<open>None\<close>, booleans, integers, strings, lists, dictionaries with string keys) and
  tuples, which the code builds itself. A dictionary is an association list in insertion
  order; lookups go through \<open>map_of\<close>. Floating-point numbers are left out.
\<close>

datatype pyval =
    PNone
  | PBool bool
  | PInt int
  | PStr string
  | PList "pyval list"
  | PTuple "pyval list"
  | PDict "(string \<times> pyval) list"

text \<open>Every \<^verbatim>\<open>raise\<close> of the source and every exception its expressions can throw.\<close>

datatype exn =
    LoginRequired string
  | CaptchaRequired string
  | InvalidCredentials string
  | ConfirmationExpected
  | ValueError string
  | KeyError string
  | IndexError
  | TypeError
  | AttributeError
  | PyException string
  | TransportError string

datatype http_method = GET | POST

text \<open>
  What is handed to \<^verbatim>\<open>session.get\<close> / \<^verbatim>\<open>session.post\<close> as \<^verbatim>\<open>params=\<close> or
  \<^verbatim>\<open>data=\<close>: nothing, a value, or the coroutine object of an \<^verbatim>\<open>async def\<close> that was
  called without \<^verbatim>\<open>await\<close> (its body has not run).
\<close>

datatype payload = Absent | Payload pyval | UnawaitedCoroutine string

record request =
  meth :: http_method
  url :: string
  params :: payload
  data :: payload
  headers :: "(string \<times> string) list"

text \<open>
  A response: its body text and the cookies it sets, each filed under a domain and a name
  as the session's cookie jar \<^verbatim>\<open>_cookies[domain][name]\<close> keeps them.
\<close>

record response =
  body :: string
  set_cookies :: "((string \<times> string) \<times> string) list"

text \<open>
  The session and everything else outside the program that a call can observe or change:
  the requests handed to the session so far (in order), the cookie jar, the number of
  clock readings taken and the number of one-time codes generated.
\<close>

record world =
  requests :: "request list"
  jar :: "((string \<times> string) \<times> string) list"
  reads :: nat
  codes :: nat

text \<open>
  The collaborators that are not part of the modelled files: the provider behind the
  HTTP session, the clock, the standard library (\<^verbatim>\<open>json.loads\<close>, \<^verbatim>\<open>str\<close>,
  \<^verbatim>\<open>int(_, 16)\<close>, \<^verbatim>\<open>str.lower\<close>), the \<^verbatim>\<open>rsa\<close>, \<^verbatim>\<open>bs4\<close> and \<^verbatim>\<open>yarl\<close>
  packages, and the repository's own \<^verbatim>\<open>guard\<close>, \<^verbatim>\<open>utils\<close> and \<^verbatim>\<open>models\<close>
  modules. They are parameters: every theorem holds for each choice of them.
  \<^item> \<open>server\<close>: the answer to a request, given the requests before it, or the exception
    the transport raises;
  \<^item> \<open>clock\<close>: \<^verbatim>\<open>time.time()\<close> in milliseconds at the n-th reading;
  \<^item> \<open>json_loads\<close>, \<open>str_of\<close>, \<open>int_base16\<close>, \<open>lower\<close>: the standard library;
    \<open>json_loads\<close> gives dictionaries with distinct keys;
  \<^item> \<open>rsa_encrypt_b64\<close>: \<^verbatim>\<open>base64.b64encode(rsa.encrypt(password, key))\<close> as text; the
    padding is random, so the result may depend on the point of the run (the number of
    requests so far);
  \<^item> \<open>soup_select\<close>: \<^verbatim>\<open>BeautifulSoup(html, 'html.parser').select(selector)\<close>;
  \<^item> \<open>url_host\<close>: the host under which the cookie jar files a cookie that is set for
    \<^verbatim>\<open>URL(text)\<close>;
  \<^item> \<open>load_steam_guard\<close>, \<open>generate_one_time_code\<close> (which may depend on when it is
    called: the number of codes generated before), \<open>generate_confirmation_key\<close>,
    \<open>generate_device_id\<close>: the \<^verbatim>\<open>guard\<close> module;
  \<^item> \<open>texts_between\<close>: \<^verbatim>\<open>utils.texts_between\<close>, as a list;
  \<^item> \<open>steam_url_community\<close>: \<^verbatim>\<open>SteamUrl.COMMUNITY_URL\<close> of \<^verbatim>\<open>models\<close>.
\<close>

record env =
  server :: "request list \<Rightarrow> request \<Rightarrow> exn + response"
  clock :: "nat \<Rightarrow> int"
  json_loads :: "string \<Rightarrow> exn + pyval"
  str_of :: "pyval \<Rightarrow> string"
  int_base16 :: "pyval \<Rightarrow> exn + int"
  lower :: "string \<Rightarrow> string"
  rsa_encrypt_b64 :: "nat \<Rightarrow> string \<Rightarrow> int \<times> int \<Rightarrow> exn + string"
  soup_select :: "string \<Rightarrow> string \<Rightarrow> (string \<times> string) list list"
  url_host :: "string \<Rightarrow> string"
  load_steam_guard :: "string \<Rightarrow> exn + pyval"
  generate_one_time_code :: "nat \<Rightarrow> pyval \<Rightarrow> exn + string"
  generate_confirmation_key :: "pyval \<Rightarrow> string \<Rightarrow> int \<Rightarrow> exn + string"
  generate_device_id :: "pyval \<Rightarrow> exn + string"
  texts_between :: "string \<Rightarrow> string \<Rightarrow> string \<Rightarrow> string list"
  steam_url_community :: string

subsection \<open>Sequencing calls that may raise\<close>

text \<open>
  A call runs on a state (the world, or an object that owns the session) and either raises
  (\<open>Inl\<close>) or returns (\<open>Inr\<close>), with the state as it left it. \<open>bind_io\<close> is
  \<^verbatim>\<open>x = await m; ...\<close>: an exception of \<open>m\<close> ends the sequence.
\<close>

type_synonym ('s, 'a) io = "'s \<Rightarrow> (exn + 'a) \<times> 's"

definition ret :: "'a \<Rightarrow> ('s, 'a) io" where
  "ret x = (\<lambda>s. (Inr x, s))"

definition raise :: "exn \<Rightarrow> ('s, 'a) io" where
  "raise e = (\<lambda>s. (Inl e, s))"

definition lift :: "exn + 'a \<Rightarrow> ('s, 'a) io" where
  "lift r = (\<lambda>s. (r, s))"

definition bind_io :: "('s, 'a) io \<Rightarrow> ('a \<Rightarrow> ('s, 'b) io) \<Rightarrow> ('s, 'b) io" where
  "bind_io m f = (\<lambda>s. case m s of (Inl e, s') \<Rightarrow> (Inl e, s') | (Inr x, s') \<Rightarrow> f x s')"

definition bind_sum :: "exn + 'a \<Rightarrow> ('a \<Rightarrow> exn + 'b) \<Rightarrow> exn + 'b" where
  "bind_sum r f = (case r of Inl e \<Rightarrow> Inl e | Inr x \<Rightarrow> f x)"

subsection \<open>Python's dictionary access, truth values and iteration\<close>

text \<open>\<^verbatim>\<open>d[k]\<close> with a string key: \<^verbatim>\<open>KeyError\<close> on a dictionary without the key,
  \<^verbatim>\<open>TypeError\<close> on anything that is not a dictionary.\<close>

fun subscript :: "pyval \<Rightarrow> string \<Rightarrow> exn + pyval" where
  "subscript (PDict kvs) k = (case map_of kvs k of None \<Rightarrow> Inl (KeyError k) | Some v \<Rightarrow> Inr v)"
| "subscript _ k = Inl TypeError"

text \<open>\<^verbatim>\<open>d.get(k, default)\<close>: only dictionaries have the method.\<close>

fun dict_get :: "pyval \<Rightarrow> string \<Rightarrow> pyval \<Rightarrow> exn + pyval" where
  "dict_get (PDict kvs) k dflt = (case map_of kvs k of None \<Rightarrow> Inr dflt | Some v \<Rightarrow> Inr v)"
| "dict_get _ k dflt = Inl AttributeError"

fun truthy :: "pyval \<Rightarrow> bool" where
  "truthy PNone = False"
| "truthy (PBool b) = b"
| "truthy (PInt n) = (n \<noteq> 0)"
| "truthy (PStr s) = (s \<noteq> [])"
| "truthy (PList xs) = (xs \<noteq> [])"
| "truthy (PTuple xs) = (xs \<noteq> [])"
| "truthy (PDict kvs) = (kvs \<noteq> [])"

text \<open>The items a \<^verbatim>\<open>for\<close> loop visits: the elements of a list or tuple, the keys of a
  dictionary, the characters of a string; other values are not iterable.\<close>

fun py_iter :: "pyval \<Rightarrow> exn + pyval list" where
  "py_iter (PList xs) = Inr xs"
| "py_iter (PTuple xs) = Inr xs"
| "py_iter (PDict kvs) = Inr (map (\<lambda>kv. PStr (fst kv)) kvs)"
| "py_iter (PStr s) = Inr (map (\<lambda>c. PStr [c]) s)"
| "py_iter _ = Inl TypeError"

subsection \<open>The session\<close>

text \<open>
  \<^verbatim>\<open>async with session.get/post(...) as response\<close>: the request is handed to the
  session, the provider answers or the transport raises, and the cookies of an answer go
  into the jar.
\<close>

definition http :: "env \<Rightarrow> request \<Rightarrow> ('a world_scheme, response) io" where
  "http env req = (\<lambda>w.
     let w1 = w\<lparr>requests := requests w @ [req]\<rparr> in
     case server env (requests w) req of
       Inl e \<Rightarrow> (Inl e, w1)
     | Inr r \<Rightarrow> (Inr r, w1\<lparr>jar := fold (\<lambda>(k, v). AList.update k v) (set_cookies r) (jar w1)\<rparr>))"

text \<open>\<^verbatim>\<open>time.time()\<close> in milliseconds; each call is a new reading.\<close>

definition time_ms :: "env \<Rightarrow> ('a world_scheme, int) io" where
  "time_ms env = (\<lambda>w. (Inr (clock env (reads w)), w\<lparr>reads := Suc (reads w)\<rparr>))"

section \<open>login.py: LoginExecutor\<close>

record login_executor =
  username :: string
  password :: string
  one_time_code :: string
  shared_secret :: pyval

definition COMMUNITY_URL :: string where
  "COMMUNITY_URL = ''https://steamcommunity.com''"

definition STORE_URL :: string where
  "STORE_URL = ''https://store.steampowered.com''"

text \<open>
  What \<^verbatim>\<open>_fetch_rsa_params\<close> hands back: the dictionary with the key and its
  timestamp, or the \<^verbatim>\<open>Task\<close> that \<^verbatim>\<open>asyncio.ensure_future\<close> made of the next attempt.
  The source returns that task without awaiting it, so the caller receives the task object
  itself; \<open>PendingTask n\<close> is the scheduled, not yet run call
  \<^verbatim>\<open>_fetch_rsa_params(n)\<close>.
\<close>

datatype rsa_params =
    RsaParams "int \<times> int" pyval
  | PendingTask nat

definition maximal_number_of_repetitions :: nat where
  "maximal_number_of_repetitions = 5"

text \<open>The \<^verbatim>\<open>try\<close> block of \<^verbatim>\<open>_fetch_rsa_params\<close>.\<close>

definition parse_rsa_key :: "env \<Rightarrow> pyval \<Rightarrow> exn + rsa_params" where
  "parse_rsa_key env key_response =
     bind_sum (bind_sum (subscript key_response ''publickey_mod'') (int_base16 env)) (\<lambda>rsa_mod.
     bind_sum (bind_sum (subscript key_response ''publickey_exp'') (int_base16 env)) (\<lambda>rsa_exp.
     bind_sum (subscript key_response ''timestamp'') (\<lambda>rsa_timestamp.
     Inr (RsaParams (rsa_mod, rsa_exp) rsa_timestamp))))"

definition fetch_rsa_params ::
  "env \<Rightarrow> login_executor \<Rightarrow> nat \<Rightarrow> ('a world_scheme, rsa_params) io" where
  "fetch_rsa_params env self current_number_of_repetitions =
     bind_io (http env \<lparr>meth = POST, url = STORE_URL @ ''/login/getrsakey/'', params = Absent,
                        data = Payload (PDict [(''username'', PStr (username self))]),
                        headers = []\<rparr>) (\<lambda>response.
     bind_io (lift (json_loads env (body response))) (\<lambda>key_response.
     lift (case parse_rsa_key env key_response of
             Inl (KeyError k) \<Rightarrow>
               if current_number_of_repetitions < maximal_number_of_repetitions
               then Inr (PendingTask (current_number_of_repetitions + 1))
               else Inl (ValueError ''Could not obtain rsa-key'')
           | Inl e \<Rightarrow> Inl e
           | Inr p \<Rightarrow> Inr p)))"

text \<open>\<^verbatim>\<open>rsa_params['rsa_key']\<close> and \<^verbatim>\<open>rsa_params['rsa_timestamp']\<close>: a task object
  cannot be subscripted.\<close>

definition encrypt_password ::
  "env \<Rightarrow> login_executor \<Rightarrow> rsa_params \<Rightarrow> ('a world_scheme, string) io" where
  "encrypt_password env self rp = (\<lambda>w.
     case rp of
       PendingTask n \<Rightarrow> (Inl TypeError, w)
     | RsaParams key ts \<Rightarrow> (rsa_encrypt_b64 env (length (requests w)) (password self) key, w))"

definition rsa_timestamp_of :: "rsa_params \<Rightarrow> exn + pyval" where
  "rsa_timestamp_of rp = (case rp of PendingTask n \<Rightarrow> Inl TypeError | RsaParams key ts \<Rightarrow> Inr ts)"

definition prepare_login_request_data ::
  "env \<Rightarrow> login_executor \<Rightarrow> string \<Rightarrow> pyval \<Rightarrow> ('a world_scheme, pyval) io" where
  "prepare_login_request_data env self encrypted_password rsa_timestamp =
     bind_io (time_ms env) (\<lambda>ms.
     ret (PDict
       [(''password'', PStr encrypted_password),
        (''username'', PStr (username self)),
        (''twofactorcode'', PStr (one_time_code self)),
        (''emailauth'', PStr ''''),
        (''loginfriendlyname'', PStr ''''),
        (''captchagid'', PStr ''-1''),
        (''captcha_text'', PStr ''''),
        (''emailsteamid'', PStr ''''),
        (''rsatimestamp'', rsa_timestamp),
        (''remember_login'', PStr ''false''),
        (''donotcache'', PStr (str_of env (PInt ms)))]))"

definition send_login_request :: "env \<Rightarrow> login_executor \<Rightarrow> ('a world_scheme, response) io" where
  "send_login_request env self =
     bind_io (fetch_rsa_params env self 0) (\<lambda>rsa_params.
     bind_io (encrypt_password env self rsa_params) (\<lambda>encrypted_password.
     bind_io (lift (rsa_timestamp_of rsa_params)) (\<lambda>rsa_timestamp.
     bind_io (prepare_login_request_data env self encrypted_password rsa_timestamp) (\<lambda>request_data.
     http env \<lparr>meth = POST, url = STORE_URL @ ''/login/dologin/'', params = Absent,
               data = Payload request_data, headers = []\<rparr>))))"

definition check_for_captcha :: "env \<Rightarrow> response \<Rightarrow> ('a world_scheme, unit) io" where
  "check_for_captcha env login_response =
     bind_io (lift (json_loads env (body login_response))) (\<lambda>d.
     bind_io (lift (dict_get d ''captcha_needed'' (PBool False))) (\<lambda>v.
     if truthy v then raise (CaptchaRequired ''Captcha required'') else ret ()))"

text \<open>Returns the response to go on with and the executor, whose \<^verbatim>\<open>one_time_code\<close>
  the two-factor branch assigns.\<close>

definition enter_steam_guard_if_necessary ::
  "env \<Rightarrow> login_executor \<Rightarrow> response \<Rightarrow> ('a world_scheme, response \<times> login_executor) io" where
  "enter_steam_guard_if_necessary env self login_response =
     bind_io (lift (json_loads env (body login_response))) (\<lambda>d.
     bind_io (lift (dict_get d ''requires_twofactor'' PNone)) (\<lambda>v.
     if truthy v then
       bind_io (\<lambda>w. (generate_one_time_code env (codes w) (shared_secret self),
                      w\<lparr>codes := Suc (codes w)\<rparr>)) (\<lambda>code.
       bind_io (send_login_request env (self\<lparr>one_time_code := code\<rparr>)) (\<lambda>r.
       ret (r, self\<lparr>one_time_code := code\<rparr>)))
     else ret (login_response, self)))"

definition assert_valid_credentials :: "env \<Rightarrow> response \<Rightarrow> ('a world_scheme, unit) io" where
  "assert_valid_credentials env login_response =
     bind_io (lift (json_loads env (body login_response))) (\<lambda>d.
     bind_io (lift (subscript d ''success'')) (\<lambda>v.
     if \<not> truthy v then raise (InvalidCredentials (str_of env d)) else ret ()))"

text \<open>The loop of \<^verbatim>\<open>_perform_redirects\<close>; the session refuses a URL that is not a string.\<close>

fun post_transfers :: "env \<Rightarrow> pyval \<Rightarrow> pyval list \<Rightarrow> ('a world_scheme, unit) io" where
  "post_transfers env parameters [] = ret ()"
| "post_transfers env parameters (u # us) =
     (case u of
        PStr target \<Rightarrow>
          bind_io (http env \<lparr>meth = POST, url = target, params = Absent,
                             data = Payload parameters, headers = []\<rparr>) (\<lambda>response.
          post_transfers env parameters us)
      | _ \<Rightarrow> raise TypeError)"

definition perform_redirects :: "env \<Rightarrow> pyval \<Rightarrow> ('a world_scheme, unit) io" where
  "perform_redirects env response_dict =
     bind_io (lift (dict_get response_dict ''transfer_parameters'' PNone)) (\<lambda>parameters.
     if parameters = PNone
     then raise (PyException ''Cannot perform redirects after login, no parameters fetched'')
     else
       bind_io (lift (bind_sum (subscript response_dict ''transfer_urls'') py_iter)) (\<lambda>urls.
       post_transfers env parameters urls))"

text \<open>
  \<^verbatim>\<open>update_cookies({'sessionid': v}, response_url=URL(domain))\<close> files the cookie under the
  host that \<^verbatim>\<open>yarl\<close> reads from the given text (\<open>url_host\<close>).
\<close>

definition set_sessionid_cookies :: "env \<Rightarrow> ('a world_scheme, unit) io" where
  "set_sessionid_cookies env = (\<lambda>w.
     case map_of (jar w) (''help.steampowered.com'', ''sessionid'') of
       None \<Rightarrow> (Inl (KeyError ''sessionid''), w)
     | Some sessionid \<Rightarrow>
         let community_domain = drop 8 COMMUNITY_URL;
             store_domain = drop 8 STORE_URL
         in (Inr (),
             w\<lparr>jar := AList.update (url_host env store_domain, ''sessionid'') sessionid
                       (AList.update (url_host env community_domain, ''sessionid'') sessionid
                          (jar w))\<rparr>))"

text \<open>\<^verbatim>\<open>login\<close> returns the session, which is the state; the value returned here is the
  executor as the call left it.\<close>

definition login :: "env \<Rightarrow> login_executor \<Rightarrow> ('a world_scheme, login_executor) io" where
  "login env self =
     bind_io (send_login_request env self) (\<lambda>login_response.
     bind_io (check_for_captcha env login_response) (\<lambda>_.
     bind_io (enter_steam_guard_if_necessary env self login_response) (\<lambda>(login_response, self).
     bind_io (assert_valid_credentials env login_response) (\<lambda>_.
     bind_io (lift (json_loads env (body login_response))) (\<lambda>response_dict.
     bind_io (perform_redirects env response_dict) (\<lambda>_.
     bind_io (set_sessionid_cookies env) (\<lambda>_.
     ret self)))))))"

section \<open>confirmation.py: ConfirmationExecutor\<close>

subsection \<open>Strings, lists and parsed elements\<close>

text \<open>
  \<^verbatim>\<open>s.split(sep)\<close> for a non-empty separator: the pieces between the occurrences of
  \<open>sep\<close>, found from the left. \<open>skip\<close> counts the characters of a separator still to
  pass over, \<open>acc\<close> is the current piece, reversed.
\<close>

fun split_aux :: "string \<Rightarrow> nat \<Rightarrow> string \<Rightarrow> string \<Rightarrow> string list" where
  "split_aux sep skip acc [] = [rev acc]"
| "split_aux sep skip acc (c # cs) =
     (if 0 < skip then split_aux sep (skip - 1) acc cs
      else if prefix sep (c # cs) then rev acc # split_aux sep (length sep - 1) [] cs
      else split_aux sep 0 (c # acc) cs)"

definition py_split :: "string \<Rightarrow> string \<Rightarrow> string list" where
  "py_split s sep = split_aux sep 0 [] s"

text \<open>\<^verbatim>\<open>xs[i]\<close> for a fixed index \<open>i \<ge> 0\<close>.\<close>

definition item :: "'a list \<Rightarrow> nat \<Rightarrow> exn + 'a" where
  "item xs i = (if i < length xs then Inr (xs ! i) else Inl IndexError)"

text \<open>\<^verbatim>\<open>needle in text\<close> on strings.\<close>

fun contains :: "string \<Rightarrow> string \<Rightarrow> bool" where
  "contains needle [] = (needle = [])"
| "contains needle (c # cs) = (prefix needle (c # cs) \<or> contains needle cs)"

text \<open>An element that \<^verbatim>\<open>soup.select\<close> found is what the code reads of it: its
  attributes. \<^verbatim>\<open>tag[name]\<close> raises \<^verbatim>\<open>KeyError\<close> for a missing attribute.\<close>

type_synonym element = "(string \<times> string) list"

definition attr :: "element \<Rightarrow> string \<Rightarrow> exn + string" where
  "attr el name = (case map_of el name of None \<Rightarrow> Inl (KeyError name) | Some v \<Rightarrow> Inr v)"

subsection \<open>Confirmation\<close>

record confirmation =
  conf_id :: string
  data_confid :: string
  data_key :: string

text \<open>\<^verbatim>\<open>Confirmation.__init__\<close>: the id is what follows \<^verbatim>\<open>conf\<close>.\<close>

definition Confirmation :: "string \<Rightarrow> string \<Rightarrow> string \<Rightarrow> exn + confirmation" where
  "Confirmation ident confid key =
     bind_sum (item (py_split ident ''conf'') 1) (\<lambda>i.
     Inr \<lparr>conf_id = i, data_confid = confid, data_key = key\<rparr>)"

subsection \<open>The executor\<close>

record confirmation_executor =
  my_steam_id :: pyval
  identity_secret :: pyval

definition CONF_URL :: string where
  "CONF_URL = ''https://steamcommunity.com/mobileconf''"

text \<open>\<^verbatim>\<open>int(time.time())\<close> from a reading in milliseconds: the seconds, rounded towards
  zero.\<close>

definition seconds :: "int \<Rightarrow> int" where
  "seconds ms = (if 0 \<le> ms then ms div 1000 else - ((- ms) div 1000))"

definition create_confirmation_params ::
  "env \<Rightarrow> confirmation_executor \<Rightarrow> string \<Rightarrow> ('a world_scheme, (string \<times> pyval) list) io" where
  "create_confirmation_params env self tag_string =
     bind_io (time_ms env) (\<lambda>ms.
     bind_io (lift (generate_confirmation_key env (identity_secret self) tag_string (seconds ms)))
       (\<lambda>confirmation_key.
     bind_io (lift (generate_device_id env (my_steam_id self))) (\<lambda>android_id.
     ret [(''p'', PStr android_id),
          (''a'', my_steam_id self),
          (''k'', PStr confirmation_key),
          (''t'', PInt (seconds ms)),
          (''m'', PStr ''android''),
          (''tag'', PStr tag_string)])))"

text \<open>
  \<^verbatim>\<open>_send_confirmation\<close>. The source writes \<^verbatim>\<open>params['op'] = tag.value,\<close> with a
  trailing comma: the value stored under \<^verbatim>\<open>op\<close> is the one-element tuple
  \<^verbatim>\<open>('allow',)\<close>.
\<close>

definition send_confirmation ::
  "env \<Rightarrow> confirmation_executor \<Rightarrow> confirmation \<Rightarrow> ('a world_scheme, pyval) io" where
  "send_confirmation env self c =
     bind_io (create_confirmation_params env self ''allow'') (\<lambda>ps.
     bind_io (http env
        \<lparr>meth = GET, url = CONF_URL @ ''/ajaxop'',
         params = Payload (PDict
           (AList.update ''ck'' (PStr (data_key c))
           (AList.update ''cid'' (PStr (data_confid c))
           (AList.update ''op'' (PTuple [PStr ''allow'']) ps)))),
         data = Absent,
         headers = [(''X-Requested-With'', ''XMLHttpRequest'')]\<rparr>) (\<lambda>response.
     lift (json_loads env (body response))))"

text \<open>
  What a name is bound to where the source expects a response object: a \<^verbatim>\<open>str\<close> or a
  response. Only a response has the attribute \<^verbatim>\<open>.text\<close>.
\<close>

datatype pyobj = StrObj string | ResponseObj response

fun text_attr :: "pyobj \<Rightarrow> exn + string" where
  "text_attr (StrObj s) = Inl AttributeError"
| "text_attr (ResponseObj r) = Inr (body r)"

text \<open>
  \<^verbatim>\<open>_fetch_confirmations_page\<close> calls \<^verbatim>\<open>self._create_confirmation_params(tag)\<close> without
  \<^verbatim>\<open>await\<close>, so \<^verbatim>\<open>params\<close> is the coroutine object: no clock is read and no key is
  generated. It returns the body text, a \<^verbatim>\<open>str\<close>.
\<close>

definition fetch_confirmations_page ::
  "env \<Rightarrow> confirmation_executor \<Rightarrow> ('a world_scheme, pyobj) io" where
  "fetch_confirmations_page env self =
     bind_io (http env
        \<lparr>meth = GET, url = CONF_URL @ ''/conf'',
         params = UnawaitedCoroutine ''_create_confirmation_params'',
         data = Absent,
         headers = [(''X-Requested-With'', ''com.valvesoftware.android.steam.community'')]\<rparr>)
       (\<lambda>response.
     if contains ''Steam Guard Mobile Authenticator is providing incorrect Steam Guard codes.''
          (body response)
     then raise (InvalidCredentials ''Invalid Steam Guard file'')
     else ret (StrObj (body response)))"

text \<open>The loop of \<^verbatim>\<open>_get_confirmations\<close> over the list entries.\<close>

fun collect_confirmations :: "confirmation list \<Rightarrow> element list \<Rightarrow> exn + confirmation list" where
  "collect_confirmations confirmations [] = Inr confirmations"
| "collect_confirmations confirmations (confirmation_div # rest) =
     bind_sum (attr confirmation_div ''id'') (\<lambda>ident.
     bind_sum (attr confirmation_div ''data-confid'') (\<lambda>confid.
     bind_sum (attr confirmation_div ''data-key'') (\<lambda>key.
     bind_sum (Confirmation ident confid key) (\<lambda>c.
     collect_confirmations (confirmations @ [c]) rest))))"

text \<open>\<^verbatim>\<open>_get_confirmations\<close> from the parsed page on: the empty-list marker, then the
  entries.\<close>

definition parse_confirmations :: "env \<Rightarrow> string \<Rightarrow> exn + confirmation list" where
  "parse_confirmations env html =
     (if soup_select env html ''#mobileconf_empty'' \<noteq> [] then Inr []
      else collect_confirmations []
             (soup_select env html ''#mobileconf_list .mobileconf_list_entry''))"

definition get_confirmations ::
  "env \<Rightarrow> confirmation_executor \<Rightarrow> ('a world_scheme, confirmation list) io" where
  "get_confirmations env self =
     bind_io (fetch_confirmations_page env self) (\<lambda>confirmations_page.
     bind_io (lift (text_attr confirmations_page)) (\<lambda>html.
     lift (parse_confirmations env html)))"

definition details_url :: "confirmation \<Rightarrow> string" where
  "details_url c = CONF_URL @ ''/details/'' @ conf_id c"

definition fetch_confirmation_details_page ::
  "env \<Rightarrow> confirmation_executor \<Rightarrow> confirmation \<Rightarrow> ('a world_scheme, pyval) io" where
  "fetch_confirmation_details_page env self c =
     bind_io (create_confirmation_params env self (''details'' @ conf_id c)) (\<lambda>ps.
     bind_io (http env \<lparr>meth = GET, url = details_url c, params = Payload (PDict ps),
                        data = Absent, headers = []\<rparr>) (\<lambda>response.
     bind_io (lift (json_loads env (body response))) (\<lambda>resp_data.
     lift (subscript resp_data ''html''))))"

text \<open>\<^verbatim>\<open>_get_confirmation_trade_offer_id\<close>; the parser takes markup, a string.\<close>

definition get_confirmation_trade_offer_id :: "env \<Rightarrow> pyval \<Rightarrow> exn + string" where
  "get_confirmation_trade_offer_id env confirmation_details_page =
     (case confirmation_details_page of
        PStr html \<Rightarrow>
          bind_sum (item (soup_select env html ''.tradeoffer'') 0) (\<lambda>el.
          bind_sum (attr el ''id'') (\<lambda>full_offer_id.
          item (py_split full_offer_id ''_'') 1))
      | _ \<Rightarrow> Inl TypeError)"

fun select_trade_offer_confirmation ::
  "env \<Rightarrow> confirmation_executor \<Rightarrow> confirmation list \<Rightarrow> string \<Rightarrow>
     ('a world_scheme, confirmation) io" where
  "select_trade_offer_confirmation env self [] trade_offer_id = raise ConfirmationExpected"
| "select_trade_offer_confirmation env self (c # cs) trade_offer_id =
     bind_io (fetch_confirmation_details_page env self c) (\<lambda>confirmation_details_page.
     bind_io (lift (get_confirmation_trade_offer_id env confirmation_details_page))
       (\<lambda>confirmation_id.
     if confirmation_id = trade_offer_id then ret c
     else select_trade_offer_confirmation env self cs trade_offer_id))"

definition send_trade_allow_request ::
  "env \<Rightarrow> confirmation_executor \<Rightarrow> string \<Rightarrow> ('a world_scheme, pyval) io" where
  "send_trade_allow_request env self trade_offer_id =
     bind_io (get_confirmations env self) (\<lambda>confirmations.
     bind_io (select_trade_offer_confirmation env self confirmations trade_offer_id)
       (\<lambda>c.
     send_confirmation env self c))"

section \<open>client.py: SteamClient\<close>

text \<open>The client owns the session: its state extends the world.\<close>

record steam_client = world +
  api_key :: string
  steam_guard :: "pyval option"
  was_login_executed :: bool
  client_username :: "string option"

text \<open>\<^verbatim>\<open>SteamClient.__init__\<close> on a fresh session.\<close>

definition SteamClient :: "string \<Rightarrow> steam_client" where
  "SteamClient key =
     \<lparr>requests = [], jar = [], reads = 0, codes = 0,
      api_key = key, steam_guard = None, was_login_executed = False, client_username = None\<rparr>"

text \<open>The decorator: \<open>func\<close> is the decorated method with its arguments.\<close>

definition login_required ::
  "('a steam_client_scheme, 'b) io \<Rightarrow> ('a steam_client_scheme, 'b) io" where
  "login_required func = (\<lambda>self.
     if \<not> was_login_executed self then (Inl (LoginRequired ''Use login method first''), self)
     else func self)"

definition steam_client_login ::
  "env \<Rightarrow> string \<Rightarrow> string \<Rightarrow> string \<Rightarrow> ('a steam_client_scheme, unit) io" where
  "steam_client_login env user pass guard_descriptor =
     bind_io (lift (load_steam_guard env guard_descriptor)) (\<lambda>g.
     bind_io (\<lambda>self. (Inr (), self\<lparr>steam_guard := Some g, client_username := Some user\<rparr>)) (\<lambda>_.
     bind_io (lift (subscript g ''shared_secret'')) (\<lambda>secret.
     bind_io (login env \<lparr>username = user, password = pass, one_time_code = [],
                          shared_secret = secret\<rparr>) (\<lambda>_.
     (\<lambda>self. (Inr (), self\<lparr>was_login_executed := True\<rparr>))))))"

definition is_session_alive_body :: "env \<Rightarrow> ('a steam_client_scheme, bool) io" where
  "is_session_alive_body env = (\<lambda>self.
     bind_io (http env \<lparr>meth = GET, url = steam_url_community env, params = Absent,
                        data = Absent, headers = []\<rparr>) (\<lambda>response.
       case client_username self of
         None \<Rightarrow> raise AttributeError
       | Some steam_login \<Rightarrow>
           ret (contains (lower env steam_login) (lower env (body response)))) self)"

definition is_session_alive :: "env \<Rightarrow> ('a steam_client_scheme, bool) io" where
  "is_session_alive env = login_required (is_session_alive_body env)"

text \<open>The loop of \<^verbatim>\<open>get_trade_receipt\<close>.\<close>

fun loads_items :: "env \<Rightarrow> pyval list \<Rightarrow> string list \<Rightarrow> exn + pyval list" where
  "loads_items env items [] = Inr items"
| "loads_items env items (t # ts) =
     bind_sum (json_loads env t) (\<lambda>v. loads_items env (items @ [v]) ts)"

text \<open>\<^verbatim>\<open>get_trade_receipt\<close> carries no decorator.\<close>

definition get_trade_receipt :: "env \<Rightarrow> string \<Rightarrow> ('a steam_client_scheme, pyval list) io" where
  "get_trade_receipt env trade_id =
     bind_io (http env \<lparr>meth = GET,
                        url = ''https://steamcommunity.com/trade/'' @ trade_id @ ''/receipt'',
                        params = Absent, data = Absent, headers = []\<rparr>) (\<lambda>response.
     lift (loads_items env []
             (texts_between env (body response) ''oItem = ''
                ('';'' @ [CHR 0x0D, CHR 0x0A, CHR 0x09] @ ''oItem''))))"

section \<open>Vocabulary of the statements\<close>

text \<open>A response dictionary signals a condition when it holds a true value under the key.\<close>

definition signals :: "(string \<times> pyval) list \<Rightarrow> string \<Rightarrow> bool" where
  "signals kvs k = (case map_of kvs k of None \<Rightarrow> False | Some v \<Rightarrow> truthy v)"

text \<open>The POST of the payload to one transfer URL.\<close>

definition transfer_post :: "pyval \<Rightarrow> string \<Rightarrow> request" where
  "transfer_post parameters target =
     \<lparr>meth = POST, url = target, params = Absent, data = Payload parameters, headers = []\<rparr>"

text \<open>The POST that asks for the RSA key.\<close>

definition rsa_key_request :: "login_executor \<Rightarrow> request" where
  "rsa_key_request self =
     \<lparr>meth = POST, url = STORE_URL @ ''/login/getrsakey/'', params = Absent,
      data = Payload (PDict [(''username'', PStr (username self))]), headers = []\<rparr>"

text \<open>A provider and transport that answer every request.\<close>

definition answers :: "env \<Rightarrow> bool" where
  "answers env = (\<forall>l q. \<exists>r. server env l q = Inr r)"




text \<open>The POST that submits the credentials of the executor with its current one-time
  code.\<close>

definition login_post :: "login_executor \<Rightarrow> request \<Rightarrow> bool" where
  "login_post self d =
     (meth d = POST \<and> url d = STORE_URL @ ''/login/dologin/''
      \<and> (case data d of
            Payload (PDict form) \<Rightarrow>
              map_of form ''username'' = Some (PStr (username self))
              \<and> map_of form ''twofactorcode'' = Some (PStr (one_time_code self))
          | _ \<Rightarrow> False))"


text \<open>What \<^verbatim>\<open>send_trade_allow_request\<close> does once it holds the list of confirmations:
  select, then send.\<close>

definition confirm_listed ::
  "env \<Rightarrow> confirmation_executor \<Rightarrow> confirmation list \<Rightarrow> string \<Rightarrow> ('a world_scheme, pyval) io" where
  "confirm_listed env self cs tid =
     bind_io (select_trade_offer_confirmation env self cs tid) (send_confirmation env self)"

text \<open>A call on the client that leaves \<^verbatim>\<open>was_login_executed\<close> as it found it.\<close>

definition keeps_flag :: "('a steam_client_scheme, 'b) io \<Rightarrow> bool" where
  "keeps_flag m = (\<forall>c r c'. m c = (r, c') \<longrightarrow> was_login_executed c' = was_login_executed c)"

section \<open>A scripted provider\<close>

text \<open>
  A concrete choice of the collaborators, to run the model on: a provider that knows the
  user \<open>alice\<close>, asks her for a one-time code and accepts \<open>CODE0\<close>, asks \<open>carol\<close>
  for a captcha and a one-time code at once, rejects every other user's password, has no
  key for \<open>nobody\<close>, shows an empty confirmation list and three detail pages for the
  offers \<open>A\<close>, \<open>B\<close> and \<open>C\<close>.
\<close>

definition ok :: "string \<Rightarrow> exn + response" where
  "ok text = Inr \<lparr>body = text, set_cookies = []\<rparr>"

definition demo_server :: "request list \<Rightarrow> request \<Rightarrow> exn + response" where
  "demo_server history req =
     (if url req = STORE_URL @ ''/login/getrsakey/'' then
        (if data req = Payload (PDict [(''username'', PStr ''nobody'')]) then ok ''NOKEY''
         else ok ''KEY'')
      else if url req = STORE_URL @ ''/login/dologin/'' then
        (case data req of
           Payload (PDict form) \<Rightarrow>
             if map_of form ''username'' = Some (PStr ''carol'') then ok ''CAPTCHA2FA''
             else if map_of form ''username'' \<noteq> Some (PStr ''alice'') then ok ''DENIED''
             else if map_of form ''twofactorcode'' = Some (PStr ''CODE0'') then ok ''OK''
             else ok ''NEED2FA''
         | _ \<Rightarrow> ok ''DENIED'')
      else if url req = ''https://help.steampowered.com/login/transfer'' then
        Inr \<lparr>body = [], set_cookies = [((''help.steampowered.com'', ''sessionid''), ''abc123'')]\<rparr>
      else if url req = CONF_URL @ ''/conf'' then ok ''EMPTY''
      else if url req = CONF_URL @ ''/details/1'' then ok ''D1''
      else if url req = CONF_URL @ ''/details/2'' then ok ''D2''
      else if url req = CONF_URL @ ''/details/3'' then ok ''D3''
      else if url req = CONF_URL @ ''/ajaxop'' then ok ''DONE''
      else ok [])"

definition demo_loads :: "string \<Rightarrow> exn + pyval" where
  "demo_loads s =
     (if s = ''KEY'' then
        Inr (PDict [(''success'', PBool True), (''publickey_mod'', PStr ''0b''),
                    (''publickey_exp'', PStr ''03''), (''timestamp'', PStr ''100'')])
      else if s = ''NOKEY'' then Inr (PDict [(''success'', PBool False)])
      else if s = ''NEED2FA'' then
        Inr (PDict [(''success'', PBool False), (''requires_twofactor'', PBool True)])
      else if s = ''DENIED'' then
        Inr (PDict [(''success'', PBool False), (''message'', PStr ''Incorrect login'')])
      else if s = ''CAPTCHA2FA'' then
        Inr (PDict [(''success'', PBool False), (''captcha_needed'', PBool True),
                    (''requires_twofactor'', PBool True)])
      else if s = ''OK'' then
        Inr (PDict [(''success'', PBool True),
                    (''transfer_urls'',
                       PList [PStr ''https://steamcommunity.com/login/transfer'',
                              PStr ''https://help.steampowered.com/login/transfer'']),
                    (''transfer_parameters'', PDict [(''token'', PStr ''T'')])])
      else if s = ''D1'' then Inr (PDict [(''success'', PBool True), (''html'', PStr ''H1'')])
      else if s = ''D2'' then Inr (PDict [(''success'', PBool True), (''html'', PStr ''H2'')])
      else if s = ''D3'' then Inr (PDict [(''success'', PBool True), (''html'', PStr ''H3'')])
      else if s = ''DONE'' then Inr (PDict [(''success'', PBool True)])
      else Inl (ValueError ''no JSON''))"

definition demo_select :: "string \<Rightarrow> string \<Rightarrow> element list" where
  "demo_select html selector =
     (if selector = ''#mobileconf_empty'' then
        (if html = ''EMPTY'' then [[(''id'', ''mobileconf_empty'')]] else [])
      else if selector = ''.tradeoffer'' then
        (if html = ''H1'' then [[(''id'', ''tradeofferid_A'')]]
         else if html = ''H2'' then [[(''id'', ''tradeofferid_B'')]]
         else if html = ''H3'' then [[(''id'', ''tradeofferid_C'')]]
         else [])
      else [])"

definition demo_guard :: pyval where
  "demo_guard =
     PDict [(''steamid'', PStr ''7656''), (''shared_secret'', PStr ''SHARED''),
            (''identity_secret'', PStr ''IDENT'')]"

definition demo_env :: env where
  "demo_env =
     \<lparr>server = demo_server,
      clock = (\<lambda>n. 1700000000000 + 1000 * int n),
      json_loads = demo_loads,
      str_of = (\<lambda>v. ''<'' @ (case v of PDict kvs \<Rightarrow> concat (map fst kvs) | _ \<Rightarrow> []) @ ''>''),
      int_base16 = (\<lambda>v. if v = PStr ''0b'' then Inr 11 else if v = PStr ''03'' then Inr 3
                          else (case v of PStr s \<Rightarrow> Inl (ValueError s) | _ \<Rightarrow> Inl TypeError)),
      lower = (\<lambda>s. s),
      rsa_encrypt_b64 = (\<lambda>n pw key. Inr (''enc:'' @ pw)),
      soup_select = demo_select,
      url_host = (\<lambda>d. d),
      load_steam_guard = (\<lambda>d. if d = ''guard.json'' then Inr demo_guard
                                else Inl (ValueError ''no guard'')),
      generate_one_time_code = (\<lambda>n secret. if secret = PStr ''SHARED'' then Inr ''CODE0''
                                             else Inl (ValueError ''no secret'')),
      generate_confirmation_key = (\<lambda>secret tag t. Inr (''sig:'' @ tag)),
      generate_device_id = (\<lambda>steam_id. Inr ''android:device''),
      texts_between = (\<lambda>text begin end. []),
      steam_url_community = ''https://steamcommunity.com''\<rparr>"

definition w0 :: world where
  "w0 = \<lparr>requests = [], jar = [], reads = 0, codes = 0\<rparr>"

definition alice :: login_executor where
  "alice = \<lparr>username = ''alice'', password = ''pw'', one_time_code = [],
            shared_secret = PStr ''SHARED''\<rparr>"

definition mallory :: login_executor where
  "mallory = \<lparr>username = ''mallory'', password = ''guess'', one_time_code = [],
              shared_secret = PStr ''SHARED''\<rparr>"

definition carol :: login_executor where
  "carol = \<lparr>username = ''carol'', password = ''pw'', one_time_code = [],
            shared_secret = PStr ''SHARED''\<rparr>"

definition nobody :: login_executor where
  "nobody = \<lparr>username = ''nobody'', password = ''pw'', one_time_code = [],
             shared_secret = PStr ''SHARED''\<rparr>"

definition demo_executor :: confirmation_executor where
  "demo_executor = \<lparr>my_steam_id = PStr ''7656'', identity_secret = PStr ''IDENT''\<rparr>"

definition demo_confirmations :: "confirmation list" where
  "demo_confirmations =
     [\<lparr>conf_id = ''1'', data_confid = ''c1'', data_key = ''k1''\<rparr>,
      \<lparr>conf_id = ''2'', data_confid = ''c2'', data_key = ''k2''\<rparr>,
      \<lparr>conf_id = ''3'', data_confid = ''c3'', data_key = ''k3''\<rparr>]"


section \<open>Facts about sequencing\<close>

lemma bind_io_Inr: "m s = (Inr x, s1) \<Longrightarrow> bind_io m f s = f x s1"
  by (simp add: bind_io_def)

lemma bind_io_Inl: "m s = (Inl e, s1) \<Longrightarrow> bind_io m f s = (Inl e, s1)"
  by (simp add: bind_io_def)


lemma bind_io_lift_Inr [simp]: "bind_io (lift (Inr x)) f = f x"
  by (simp add: bind_io_def lift_def)

lemma bind_io_lift_Inl [simp]: "bind_io (lift (Inl e)) f = raise e"
  by (simp add: bind_io_def lift_def raise_def)

lemma bind_io_ret [simp]: "bind_io (ret x) f = f x"
  by (simp add: bind_io_def ret_def)

lemma bind_io_raise [simp]: "bind_io (raise e) f = raise e"
  by (simp add: bind_io_def raise_def)

section \<open>The session: what a request leaves behind\<close>

lemma http_requests:
  "http env req w = (r, w') \<Longrightarrow> requests w' = requests w @ [req]"
  by (auto simp: http_def Let_def split: sum.splits)

lemma http_answers:
  "server env (requests w) req = Inr a \<Longrightarrow> \<exists>w'. http env req w = (Inr a, w')"
  by (simp add: http_def Let_def)

section \<open>Redirects after login\<close>

text \<open>The loop posts to a prefix of the URLs, in order, and to all of them when it returns.\<close>

lemma post_transfers_requests:
  "post_transfers env p (map PStr us) w = (r, w') \<Longrightarrow>
     \<exists>k\<le>length us. requests w' = requests w @ map (transfer_post p) (take k us)
        \<and> (r = Inr () \<longrightarrow> k = length us)"
proof (induction us arbitrary: w)
  case Nil
  then show ?case by (simp add: ret_def)
next
  case (Cons u us)
  obtain a w1 where h: "http env (transfer_post p u) w = (a, w1)"
    by (cases "http env (transfer_post p u) w")
  have rq: "requests w1 = requests w @ [transfer_post p u]"
    using http_requests [OF h] .
  show ?case
  proof (cases a)
    case (Inl e)
    with Cons.prems h have "r = Inl e" "w' = w1"
      by (simp_all add: bind_io_def transfer_post_def)
    with rq show ?thesis
      by (intro exI [of _ 1]) simp
  next
    case (Inr resp)
    with Cons.prems h have "post_transfers env p (map PStr us) w1 = (r, w')"
      by (simp add: bind_io_def transfer_post_def)
    from Cons.IH [OF this] obtain k where k: "k \<le> length us"
      "requests w' = requests w1 @ map (transfer_post p) (take k us)"
      "r = Inr () \<longrightarrow> k = length us" by blast
    with rq show ?thesis
      by (intro exI [of _ "Suc k"]) simp
  qed
qed

lemma post_transfers_answers:
  "answers env \<Longrightarrow> \<exists>w'. post_transfers env p (map PStr us) w = (Inr (), w')"
proof (induction us arbitrary: w)
  case Nil
  then show ?case by (simp add: ret_def)
next
  case (Cons u us)
  from Cons.prems obtain a where "server env (requests w) (transfer_post p u) = Inr a"
    unfolding answers_def by blast
  from http_answers [OF this] obtain w1 where "http env (transfer_post p u) w = (Inr a, w1)" ..
  with Cons.IH [OF Cons.prems, of w1] show ?case
    by (simp add: bind_io_def transfer_post_def)
qed

lemma perform_redirects_absent:
  "map_of kvs ''transfer_parameters'' = None \<or> map_of kvs ''transfer_parameters'' = Some PNone \<Longrightarrow>
     perform_redirects env (PDict kvs) w =
       (Inl (PyException ''Cannot perform redirects after login, no parameters fetched''), w)"
  by (auto simp: perform_redirects_def raise_def)

lemma perform_redirects_present:
  assumes "map_of kvs ''transfer_parameters'' = Some p" "p \<noteq> PNone"
    and "map_of kvs ''transfer_urls'' = Some (PList (map PStr us))"
  shows "perform_redirects env (PDict kvs) w = post_transfers env p (map PStr us) w"
  using assms by (simp add: perform_redirects_def bind_sum_def)

lemma answers_demo: "answers demo_env"
  by (simp add: answers_def demo_env_def demo_server_def ok_def split: payload.split pyval.split)

text \<open>
  Claim C9. When the response dictionary of a successful login has no
  \<^verbatim>\<open>transfer_parameters\<close> (the key is missing, or its value is \<^verbatim>\<open>None\<close>),
  \<^verbatim>\<open>_perform_redirects\<close> raises the exception that no parameters were fetched and hands no
  request to the session. When the payload is there and \<^verbatim>\<open>transfer_urls\<close> is a list of
  URLs, the requests it adds are POSTs of that same payload to the URLs in the order of the
  list: to the first \<open>k\<close> of them, and to all of them when the call returns; it returns,
  having posted to all, whenever the provider answers every request.
\<close>

theorem perform_redirects_contract:
  "(map_of kvs ''transfer_parameters'' = None \<or> map_of kvs ''transfer_parameters'' = Some PNone \<longrightarrow>
      perform_redirects env (PDict kvs) w =
        (Inl (PyException ''Cannot perform redirects after login, no parameters fetched''), w))
   \<and> (\<forall>p us. map_of kvs ''transfer_parameters'' = Some p \<and> p \<noteq> PNone
          \<and> map_of kvs ''transfer_urls'' = Some (PList (map PStr us)) \<longrightarrow>
        (\<exists>k\<le>length us.
           requests (snd (perform_redirects env (PDict kvs) w))
             = requests w @ map (transfer_post p) (take k us)
           \<and> (fst (perform_redirects env (PDict kvs) w) = Inr () \<longrightarrow> k = length us))
        \<and> (answers env \<longrightarrow>
             fst (perform_redirects env (PDict kvs) w) = Inr ()
             \<and> requests (snd (perform_redirects env (PDict kvs) w))
                 = requests w @ map (transfer_post p) us))"
proof (intro conjI impI allI)
  assume "map_of kvs ''transfer_parameters'' = None \<or> map_of kvs ''transfer_parameters'' = Some PNone"
  then show "perform_redirects env (PDict kvs) w =
        (Inl (PyException ''Cannot perform redirects after login, no parameters fetched''), w)"
    by (rule perform_redirects_absent)
next
  fix p us
  assume a: "map_of kvs ''transfer_parameters'' = Some p \<and> p \<noteq> PNone
          \<and> map_of kvs ''transfer_urls'' = Some (PList (map PStr us))"
  then have eq: "perform_redirects env (PDict kvs) w = post_transfers env p (map PStr us) w"
    by (simp add: perform_redirects_present)
  obtain r w' where run: "post_transfers env p (map PStr us) w = (r, w')"
    by (cases "post_transfers env p (map PStr us) w")
  from post_transfers_requests [OF run] eq run
  show "\<exists>k\<le>length us.
           requests (snd (perform_redirects env (PDict kvs) w))
             = requests w @ map (transfer_post p) (take k us)
           \<and> (fst (perform_redirects env (PDict kvs) w) = Inr () \<longrightarrow> k = length us)"
    by simp
  assume "answers env"
  from post_transfers_answers [OF this, of p us w] run have r: "r = Inr ()" by auto
  with post_transfers_requests [OF run] eq run
  show "fst (perform_redirects env (PDict kvs) w) = Inr ()"
    and "requests (snd (perform_redirects env (PDict kvs) w))
                 = requests w @ map (transfer_post p) us"
    by auto
qed

theorem perform_redirects_contract_witness:
  "perform_redirects demo_env (PDict [(''success'', PBool True)]) w0 =
        (Inl (PyException ''Cannot perform redirects after login, no parameters fetched''), w0)
   \<and> fst (perform_redirects demo_env
        (PDict [(''transfer_parameters'', PDict [(''token'', PStr ''T'')]),
                (''transfer_urls'', PList [PStr ''u1'', PStr ''u2''])]) w0) = Inr ()
   \<and> requests (snd (perform_redirects demo_env
        (PDict [(''transfer_parameters'', PDict [(''token'', PStr ''T'')]),
                (''transfer_urls'', PList [PStr ''u1'', PStr ''u2''])]) w0))
      = [transfer_post (PDict [(''token'', PStr ''T'')]) ''u1'',
         transfer_post (PDict [(''token'', PStr ''T'')]) ''u2'']"
  using perform_redirects_contract [of "[(''success'', PBool True)]" demo_env w0]
    perform_redirects_contract [of "[(''transfer_parameters'', PDict [(''token'', PStr ''T'')]),
                (''transfer_urls'', PList [PStr ''u1'', PStr ''u2''])]" demo_env w0,
      THEN conjunct2, rule_format, of "PDict [(''token'', PStr ''T'')]" "[''u1'', ''u2'']"]
    answers_demo
  by (simp add: w0_def)

section \<open>The login request\<close>

lemma bind_io_cases:
  "bind_io m f s = (r, s') \<Longrightarrow>
     (\<exists>e. m s = (Inl e, s') \<and> r = Inl e) \<or> (\<exists>x s1. m s = (Inr x, s1) \<and> f x s1 = (r, s'))"
  by (auto simp: bind_io_def split: prod.splits sum.splits)

lemma http_effect:
  "http env req w = (r, w') \<Longrightarrow>
     requests w' = requests w @ [req] \<and> reads w' = reads w \<and> codes w' = codes w"
  by (auto simp: http_def Let_def split: sum.splits)

lemma lift_effect: "lift x w = (r, w') \<Longrightarrow> w' = w \<and> r = x"
  by (simp add: lift_def)

lemma fetch_rsa_params_effect:
  assumes "fetch_rsa_params env self n w = (r, w')"
  shows "requests w' = requests w @ [rsa_key_request self] \<and> reads w' = reads w \<and> codes w' = codes w"
proof -
  from assms [unfolded fetch_rsa_params_def] 
  have *: "bind_io (http env (rsa_key_request self)) (\<lambda>response.
     bind_io (lift (json_loads env (body response))) (\<lambda>key_response.
     lift (case parse_rsa_key env key_response of
             Inl (KeyError k) \<Rightarrow>
               if n < maximal_number_of_repetitions
               then Inr (PendingTask (n + 1))
               else Inl (ValueError ''Could not obtain rsa-key'')
           | Inl e \<Rightarrow> Inl e
           | Inr p \<Rightarrow> Inr p))) w = (r, w')"
    by (simp add: rsa_key_request_def)
  from bind_io_cases [OF *] show ?thesis
  proof (elim disjE exE conjE)
    fix e assume "http env (rsa_key_request self) w = (Inl e, w')"
    from http_effect [OF this] show ?thesis .
  next
    fix x s1 assume h: "http env (rsa_key_request self) w = (Inr x, s1)"
      and rest: "bind_io (lift (json_loads env (body x))) (\<lambda>key_response.
     lift (case parse_rsa_key env key_response of
             Inl (KeyError k) \<Rightarrow>
               if n < maximal_number_of_repetitions
               then Inr (PendingTask (n + 1))
               else Inl (ValueError ''Could not obtain rsa-key'')
           | Inl e \<Rightarrow> Inl e
           | Inr p \<Rightarrow> Inr p)) s1 = (r, w')"
    from rest have "w' = s1"
      by (auto simp: bind_io_def lift_def split: sum.splits)
    with http_effect [OF h] show ?thesis by simp
  qed
qed

lemma prepare_login_request_data_effect:
  assumes "prepare_login_request_data env self pw ts w = (r, w')"
  shows "requests w' = requests w \<and> codes w' = codes w
     \<and> (\<exists>form. r = Inr (PDict form)
          \<and> map_of form ''username'' = Some (PStr (username self))
          \<and> map_of form ''twofactorcode'' = Some (PStr (one_time_code self)))"
  using assms
  by (auto simp: prepare_login_request_data_def bind_io_def time_ms_def ret_def)

lemma send_login_request_effect:
  assumes "send_login_request env self w = (r, w')"
  shows "reads w' \<ge> reads w \<and> codes w' = codes w
     \<and> ((requests w' = requests w @ [rsa_key_request self] \<and> (\<exists>e. r = Inl e))
        \<or> (\<exists>d. requests w' = requests w @ [rsa_key_request self, d] \<and> login_post self d))"
proof -
  note run = assms [unfolded send_login_request_def]
  from bind_io_cases [OF run] show ?thesis
  proof (elim disjE exE conjE)
    fix e assume "fetch_rsa_params env self 0 w = (Inl e, w')" "r = Inl e"
    with fetch_rsa_params_effect show ?thesis by fastforce
  next
    fix rp w1
    assume f: "fetch_rsa_params env self 0 w = (Inr rp, w1)"
      and r1: "bind_io (encrypt_password env self rp) (\<lambda>encrypted_password.
     bind_io (lift (rsa_timestamp_of rp)) (\<lambda>rsa_timestamp.
     bind_io (prepare_login_request_data env self encrypted_password rsa_timestamp) (\<lambda>request_data.
     http env \<lparr>meth = POST, url = STORE_URL @ ''/login/dologin/'', params = Absent,
               data = Payload request_data, headers = []\<rparr>))) w1 = (r, w')"
    note e1 = fetch_rsa_params_effect [OF f]
    from bind_io_cases [OF r1] show ?thesis
    proof (elim disjE exE conjE)
      fix e assume "encrypt_password env self rp w1 = (Inl e, w')" "r = Inl e"
      then have "w' = w1" by (auto simp: encrypt_password_def split: rsa_params.splits)
      with e1 \<open>r = Inl e\<close> show ?thesis by simp
    next
      fix pw w2
      assume en: "encrypt_password env self rp w1 = (Inr pw, w2)"
        and r2: "bind_io (lift (rsa_timestamp_of rp)) (\<lambda>rsa_timestamp.
     bind_io (prepare_login_request_data env self pw rsa_timestamp) (\<lambda>request_data.
     http env \<lparr>meth = POST, url = STORE_URL @ ''/login/dologin/'', params = Absent,
               data = Payload request_data, headers = []\<rparr>)) w2 = (r, w')"
      from en have w2: "w2 = w1" by (auto simp: encrypt_password_def split: rsa_params.splits)
      from bind_io_cases [OF r2] show ?thesis
      proof (elim disjE exE conjE)
        fix e assume "lift (rsa_timestamp_of rp) w2 = (Inl e, w')" "r = Inl e"
        with w2 e1 show ?thesis by (simp add: lift_def)
      next
        fix ts w3
        assume l: "lift (rsa_timestamp_of rp) w2 = (Inr ts, w3)"
          and r3: "bind_io (prepare_login_request_data env self pw ts) (\<lambda>request_data.
     http env \<lparr>meth = POST, url = STORE_URL @ ''/login/dologin/'', params = Absent,
               data = Payload request_data, headers = []\<rparr>) w3 = (r, w')"
        from l w2 have w3: "w3 = w1" by (simp add: lift_def)
        from bind_io_cases [OF r3] show ?thesis
        proof (elim disjE exE conjE)
          fix e assume p: "prepare_login_request_data env self pw ts w3 = (Inl e, w')" "r = Inl e"
          from prepare_login_request_data_effect [OF p(1)] show ?thesis by simp
        next
          fix rd w4
          assume p: "prepare_login_request_data env self pw ts w3 = (Inr rd, w4)"
            and h: "http env \<lparr>meth = POST, url = STORE_URL @ ''/login/dologin/'', params = Absent,
               data = Payload rd, headers = []\<rparr> w4 = (r, w')"
          from prepare_login_request_data_effect [OF p] obtain form where
            f: "requests w4 = requests w3" "codes w4 = codes w3" "rd = PDict form"
              "map_of form ''username'' = Some (PStr (username self))"
              "map_of form ''twofactorcode'' = Some (PStr (one_time_code self))" by auto
          from p have rd4: "reads w3 \<le> reads w4"
            by (auto simp: prepare_login_request_data_def bind_io_def time_ms_def ret_def)
          from http_effect [OF h] f w3 e1 rd4 show ?thesis
            by (auto simp: login_post_def)
        qed
      qed
    qed
  qed
qed

lemma rsa_key_request_code [simp]:
  "rsa_key_request (self\<lparr>one_time_code := code\<rparr>) = rsa_key_request self"
  by (simp add: rsa_key_request_def)

lemma dict_get_dict:
  "dict_get (PDict kvs) k d = Inr (case map_of kvs k of None \<Rightarrow> d | Some v \<Rightarrow> v)"
  by (simp split: option.split)

lemma truthy_signal:
  "truthy (case map_of kvs k of None \<Rightarrow> PNone | Some v \<Rightarrow> v) = signals kvs k"
  by (simp add: signals_def split: option.split)

lemma truthy_signal_dflt:
  "truthy (case map_of kvs k of None \<Rightarrow> PBool False | Some v \<Rightarrow> v) = signals kvs k"
  by (simp add: signals_def split: option.split)

lemma enter_steam_guard_quiet:
  assumes "json_loads env (body resp) = Inr (PDict kvs)" "\<not> signals kvs ''requires_twofactor''"
  shows "enter_steam_guard_if_necessary env self resp w = (Inr (resp, self), w)"
  using assms
  by (simp add: enter_steam_guard_if_necessary_def dict_get_dict truthy_signal ret_def
      del: dict_get.simps)

lemma enter_steam_guard_resubmits:
  assumes "json_loads env (body resp) = Inr (PDict kvs)" "signals kvs ''requires_twofactor''"
    and "generate_one_time_code env (codes w) (shared_secret self) = Inr code"
  shows "enter_steam_guard_if_necessary env self resp w =
           bind_io (send_login_request env (self\<lparr>one_time_code := code\<rparr>))
             (\<lambda>r. ret (r, self\<lparr>one_time_code := code\<rparr>)) (w\<lparr>codes := Suc (codes w)\<rparr>)"
proof -
  have "enter_steam_guard_if_necessary env self resp w =
      bind_io (\<lambda>w. (generate_one_time_code env (codes w) (shared_secret self),
                      w\<lparr>codes := Suc (codes w)\<rparr>)) (\<lambda>code.
       bind_io (send_login_request env (self\<lparr>one_time_code := code\<rparr>)) (\<lambda>r.
       ret (r, self\<lparr>one_time_code := code\<rparr>))) w"
    using assms(1,2)
    by (simp add: enter_steam_guard_if_necessary_def dict_get_dict truthy_signal
        del: dict_get.simps)
  also have "\<dots> = bind_io (send_login_request env (self\<lparr>one_time_code := code\<rparr>))
             (\<lambda>r. ret (r, self\<lparr>one_time_code := code\<rparr>)) (w\<lparr>codes := Suc (codes w)\<rparr>)"
    using assms(3) by (simp add: bind_io_def)
  finally show ?thesis .
qed

lemma check_for_captcha_quiet:
  assumes "json_loads env (body resp) = Inr (PDict kvs)" "\<not> signals kvs ''captcha_needed''"
  shows "check_for_captcha env resp w = (Inr (), w)"
  using assms
  by (simp add: check_for_captcha_def dict_get_dict truthy_signal_dflt ret_def
      del: dict_get.simps)

lemma assert_valid_credentials_rejects:
  assumes "json_loads env (body resp) = Inr (PDict kvs)"
    and "map_of kvs ''success'' = Some v" "\<not> truthy v"
  shows "assert_valid_credentials env resp w = (Inl (InvalidCredentials (str_of env (PDict kvs))), w)"
  using assms
  by (simp add: assert_valid_credentials_def raise_def)

lemmas model_defs =
  send_login_request_def fetch_rsa_params_def parse_rsa_key_def encrypt_password_def
  rsa_timestamp_of_def prepare_login_request_data_def http_def time_ms_def
  bind_io_def bind_sum_def lift_def ret_def raise_def Let_def
  STORE_URL_def COMMUNITY_URL_def CONF_URL_def maximal_number_of_repetitions_def

lemmas demo_defs =
  demo_env_def demo_server_def demo_loads_def demo_select_def demo_guard_def ok_def w0_def
  alice_def mallory_def carol_def nobody_def demo_executor_def demo_confirmations_def

text \<open>
  The two-factor step on its own, for any response that parses to a dictionary. If the
  response signals \<^verbatim>\<open>requires_twofactor\<close> and the guard yields a code for the shared
  secret, \<^verbatim>\<open>_enter_steam_guard_if_necessary\<close> generates one code and resubmits once: it
  adds one request for the RSA key and, unless that step fails, one POST of the
  credentials, which carries the new code. Otherwise the same response goes on and the
  world is unchanged.
\<close>

lemma enter_steam_guard_contract:
  assumes "json_loads env (body resp) = Inr (PDict kvs)"
  shows "(signals kvs ''requires_twofactor'' \<longrightarrow>
            (\<forall>code. generate_one_time_code env (codes w) (shared_secret self) = Inr code \<longrightarrow>
               codes (snd (enter_steam_guard_if_necessary env self resp w)) = Suc (codes w)
               \<and> ((requests (snd (enter_steam_guard_if_necessary env self resp w))
                      = requests w @ [rsa_key_request self]
                    \<and> (\<exists>e. fst (enter_steam_guard_if_necessary env self resp w) = Inl e))
                  \<or> (\<exists>d. requests (snd (enter_steam_guard_if_necessary env self resp w))
                            = requests w @ [rsa_key_request self, d]
                          \<and> login_post (self\<lparr>one_time_code := code\<rparr>) d))
               \<and> (\<forall>r2 ex2. fst (enter_steam_guard_if_necessary env self resp w) = Inr (r2, ex2) \<longrightarrow>
                     ex2 = self\<lparr>one_time_code := code\<rparr>)))
       \<and> (\<not> signals kvs ''requires_twofactor'' \<longrightarrow>
            enter_steam_guard_if_necessary env self resp w = (Inr (resp, self), w))"
proof (intro conjI impI allI)
  assume "\<not> signals kvs ''requires_twofactor''"
  with assms show "enter_steam_guard_if_necessary env self resp w = (Inr (resp, self), w)"
    by (rule enter_steam_guard_quiet)
next
  fix code
  assume s: "signals kvs ''requires_twofactor''"
    and g: "generate_one_time_code env (codes w) (shared_secret self) = Inr code"
  let ?self = "self\<lparr>one_time_code := code\<rparr>"
  let ?w = "w\<lparr>codes := Suc (codes w)\<rparr>"
  obtain r w' where run: "send_login_request env ?self ?w = (r, w')"
    by (cases "send_login_request env ?self ?w")
  have eq: "enter_steam_guard_if_necessary env self resp w =
      (case r of Inl e \<Rightarrow> Inl e | Inr x \<Rightarrow> Inr (x, ?self), w')"
    using enter_steam_guard_resubmits [OF assms s g] run
    by (simp add: bind_io_def ret_def split: sum.split)
  note eff = send_login_request_effect [OF run]
  from eff eq show "codes (snd (enter_steam_guard_if_necessary env self resp w)) = Suc (codes w)"
    by simp
  from eff eq show "(requests (snd (enter_steam_guard_if_necessary env self resp w))
                      = requests w @ [rsa_key_request self]
                    \<and> (\<exists>e. fst (enter_steam_guard_if_necessary env self resp w) = Inl e))
                  \<or> (\<exists>d. requests (snd (enter_steam_guard_if_necessary env self resp w))
                            = requests w @ [rsa_key_request self, d]
                          \<and> login_post (self\<lparr>one_time_code := code\<rparr>) d)"
    by auto
  fix r2 ex2
  assume "fst (enter_steam_guard_if_necessary env self resp w) = Inr (r2, ex2)"
  with eq show "ex2 = self\<lparr>one_time_code := code\<rparr>"
    by (auto split: sum.splits)
qed

text \<open>
  Claim C8. Let the credentials be submitted and the response parse to a dictionary whose
  \<^verbatim>\<open>success\<close> value is false, and which signals neither \<^verbatim>\<open>captcha_needed\<close> nor
  \<^verbatim>\<open>requires_twofactor\<close>. Then \<^verbatim>\<open>login\<close> raises \<^verbatim>\<open>InvalidCredentials\<close> carrying
  \<^verbatim>\<open>str\<close> of the response data, and the world is as the first submission left it: the
  whole call made one request for the key and one POST of the credentials, and did not
  resubmit.
\<close>

theorem login_invalid_credentials:
  assumes "send_login_request env self w = (Inr resp, w1)"
    and "json_loads env (body resp) = Inr (PDict kvs)"
    and "map_of kvs ''success'' = Some v" and "\<not> truthy v"
    and "\<not> signals kvs ''captcha_needed''" and "\<not> signals kvs ''requires_twofactor''"
  shows "login env self w = (Inl (InvalidCredentials (str_of env (PDict kvs))), w1)
       \<and> (\<exists>d. requests w1 = requests w @ [rsa_key_request self, d] \<and> login_post self d)"
proof
  have c: "check_for_captcha env resp w1 = (Inr (), w1)"
    using assms(2,5) by (rule check_for_captcha_quiet)
  have g: "enter_steam_guard_if_necessary env self resp w1 = (Inr (resp, self), w1)"
    using assms(2,6) by (rule enter_steam_guard_quiet)
  have a: "assert_valid_credentials env resp w1
             = (Inl (InvalidCredentials (str_of env (PDict kvs))), w1)"
    using assms(2,3,4) by (rule assert_valid_credentials_rejects)
  show "login env self w = (Inl (InvalidCredentials (str_of env (PDict kvs))), w1)"
    by (simp add: login_def bind_io_def assms(1) c g a)
  from send_login_request_effect [OF assms(1)]
  show "\<exists>d. requests w1 = requests w @ [rsa_key_request self, d] \<and> login_post self d"
    by auto
qed

lemma mallory_submits:
  "send_login_request demo_env mallory w0 =
     (Inr \<lparr>body = ''DENIED'', set_cookies = []\<rparr>,
      \<lparr>requests =
         [rsa_key_request mallory,
          \<lparr>meth = POST, url = ''https://store.steampowered.com/login/dologin/'', params = Absent,
           data = Payload (PDict
              [(''password'', PStr ''enc:guess''),
               (''username'', PStr ''mallory''),
               (''twofactorcode'', PStr []), (''emailauth'', PStr []),
               (''loginfriendlyname'', PStr []),
               (''captchagid'', PStr ''-1''), (''captcha_text'', PStr []),
               (''emailsteamid'', PStr []),
               (''rsatimestamp'', PStr ''100''),
               (''remember_login'', PStr ''false''),
               (''donotcache'', PStr ''<>'')]),
           headers = []\<rparr>],
       jar = [], reads = 1, codes = 0\<rparr>)"
  by (simp add: model_defs demo_defs rsa_key_request_def)

theorem login_invalid_credentials_witness:
  "login demo_env mallory w0 =
     (Inl (InvalidCredentials ''<successmessage>''),
      \<lparr>requests =
         [rsa_key_request mallory,
          \<lparr>meth = POST, url = ''https://store.steampowered.com/login/dologin/'', params = Absent,
           data = Payload (PDict
              [(''password'', PStr ''enc:guess''),
               (''username'', PStr ''mallory''),
               (''twofactorcode'', PStr []), (''emailauth'', PStr []),
               (''loginfriendlyname'', PStr []),
               (''captchagid'', PStr ''-1''), (''captcha_text'', PStr []),
               (''emailsteamid'', PStr []),
               (''rsatimestamp'', PStr ''100''),
               (''remember_login'', PStr ''false''),
               (''donotcache'', PStr ''<>'')]),
           headers = []\<rparr>],
       jar = [], reads = 1, codes = 0\<rparr>)"
proof -
  let ?kvs = "[(''success'', PBool False), (''message'', PStr ''Incorrect login'')]"
  have parsed: "json_loads demo_env (body \<lparr>body = ''DENIED'', set_cookies = []\<rparr>) = Inr (PDict ?kvs)"
    by (simp add: demo_env_def demo_loads_def)
  have flag: "map_of ?kvs ''success'' = Some (PBool False)" "\<not> truthy (PBool False)"
    "\<not> signals ?kvs ''captcha_needed''" "\<not> signals ?kvs ''requires_twofactor''"
    by (simp_all add: signals_def)
  have repr: "str_of demo_env (PDict ?kvs) = ''<successmessage>''"
    by (simp add: demo_env_def)
  from login_invalid_credentials [OF mallory_submits parsed flag] repr
  show ?thesis by simp
qed

section \<open>Fetching the RSA key\<close>

lemma parse_rsa_key_missing:
  "map_of kvs ''publickey_mod'' = None \<Longrightarrow>
     parse_rsa_key env (PDict kvs) = Inl (KeyError ''publickey_mod'')"
  by (simp add: parse_rsa_key_def bind_sum_def)

lemma fetch_rsa_params_missing:
  assumes "server env (requests w) (rsa_key_request self) = Inr resp"
    and "json_loads env (body resp) = Inr (PDict kvs)"
    and "map_of kvs ''publickey_mod'' = None"
  shows "fetch_rsa_params env self n w =
           (if n < 5 then Inr (PendingTask (n + 1)) else Inl (ValueError ''Could not obtain rsa-key''),
            snd (http env (rsa_key_request self) w))"
  using assms
  by (simp add: fetch_rsa_params_def rsa_key_request_def [symmetric] http_def bind_io_def
      lift_def Let_def parse_rsa_key_missing maximal_number_of_repetitions_def)

lemma fetch_rsa_params_present:
  assumes "server env (requests w) (rsa_key_request self) = Inr resp"
    and "json_loads env (body resp) = Inr key_response"
    and "parse_rsa_key env key_response = Inr p"
  shows "fetch_rsa_params env self n w = (Inr p, snd (http env (rsa_key_request self) w))"
  using assms
  by (simp add: fetch_rsa_params_def rsa_key_request_def [symmetric] http_def bind_io_def
      lift_def Let_def)

text \<open>
  Claim C5 says that a key response without the expected fields is retried up to five
  times and that the operation then fails because the key could not be obtained. The
  source does count the attempts and does raise that error at the bound (lemma
  \<open>fetch_rsa_params_missing\<close>), but it returns the next attempt as a scheduled task
  that nobody awaits. What the code does when the first response lacks
  \<^verbatim>\<open>publickey_mod\<close>: \<^verbatim>\<open>_fetch_rsa_params\<close> returns the task object,
  \<^verbatim>\<open>_send_login_request\<close> subscripts it and raises \<^verbatim>\<open>TypeError\<close>, and
  \<^verbatim>\<open>login\<close> ends with that error after the single key request.
\<close>

theorem rsa_key_fetch_not_retried:
  assumes "server env (requests w) (rsa_key_request self) = Inr resp"
    and "json_loads env (body resp) = Inr (PDict kvs)"
    and "map_of kvs ''publickey_mod'' = None"
  shows "fst (fetch_rsa_params env self 0 w) = Inr (PendingTask 1)
       \<and> fst (send_login_request env self w) = Inl TypeError
       \<and> requests (snd (send_login_request env self w)) = requests w @ [rsa_key_request self]
       \<and> fst (login env self w) = Inl TypeError
       \<and> requests (snd (login env self w)) = requests w @ [rsa_key_request self]"
proof -
  let ?w1 = "snd (http env (rsa_key_request self) w)"
  have f: "fetch_rsa_params env self 0 w = (Inr (PendingTask 1), ?w1)"
    using fetch_rsa_params_missing [OF assms, of 0] by simp
  have s: "send_login_request env self w = (Inl TypeError, ?w1)"
    by (simp add: send_login_request_def bind_io_def f encrypt_password_def)
  have l: "login env self w = (Inl TypeError, ?w1)"
    by (simp add: login_def bind_io_def s)
  have "requests ?w1 = requests w @ [rsa_key_request self]"
    by (rule http_requests [of env _ w "fst (http env (rsa_key_request self) w)"]) simp
  with f s l show ?thesis by simp
qed

theorem rsa_key_fetch_not_retried_witness:
  "fst (fetch_rsa_params demo_env nobody 0 w0) = Inr (PendingTask 1)
   \<and> login demo_env nobody w0 = (Inl TypeError, w0\<lparr>requests := [rsa_key_request nobody]\<rparr>)"
proof -
  have a: "server demo_env (requests w0) (rsa_key_request nobody) = Inr \<lparr>body = ''NOKEY'', set_cookies = []\<rparr>"
    by (simp add: demo_env_def demo_server_def rsa_key_request_def nobody_def ok_def)
  have b: "json_loads demo_env (body \<lparr>body = ''NOKEY'', set_cookies = []\<rparr>)
             = Inr (PDict [(''success'', PBool False)])"
    by (simp add: demo_env_def demo_loads_def)
  have c: "map_of [(''success'', PBool False)] ''publickey_mod'' = None" by simp
  have "jar (snd (login demo_env nobody w0)) = [] \<and> reads (snd (login demo_env nobody w0)) = 0
     \<and> codes (snd (login demo_env nobody w0)) = 0"
    by (simp add: login_def model_defs demo_defs)
  with rsa_key_fetch_not_retried [OF a b c] show ?thesis
    by (cases "login demo_env nobody w0") (auto simp: w0_def)
qed

section \<open>Session cookies after login\<close>

lemma drop_scheme [simp]:
  "drop 8 COMMUNITY_URL = ''steamcommunity.com''" "drop 8 STORE_URL = ''store.steampowered.com''"
  by (simp_all add: COMMUNITY_URL_def STORE_URL_def)



lemmas login_defs =
  login_def check_for_captcha_def enter_steam_guard_if_necessary_def
  assert_valid_credentials_def perform_redirects_def set_sessionid_cookies_def



section \<open>The two-factor step within login\<close>










section \<open>Confirmations\<close>








subsection \<open>Scanning the list\<close>








lemma send_trade_allow_request_listed:
  "send_trade_allow_request env self tid =
     bind_io (get_confirmations env self) (\<lambda>cs. confirm_listed env self cs tid)"
  by (simp add: send_trade_allow_request_def confirm_listed_def)







subsection \<open>The empty list\<close>


text \<open>\<^verbatim>\<open>_get_confirmations\<close> reads \<^verbatim>\<open>.text\<close> of the string that
  \<^verbatim>\<open>_fetch_confirmations_page\<close> returned: as written it never returns a list.\<close>

lemma get_confirmations_raises:
  "get_confirmations env self w = (r, w') \<Longrightarrow> \<exists>e. r = Inl e"
  by (auto simp: get_confirmations_def fetch_confirmations_page_def bind_io_def lift_def
      raise_def ret_def split: sum.splits prod.splits if_splits)




section \<open>The client and its login flag\<close>

lemma login_required_before_login:
  "\<not> was_login_executed c \<Longrightarrow>
     login_required func c = (Inl (LoginRequired ''Use login method first''), c)"
  by (simp add: login_required_def)

lemma is_session_alive_before_login:
  "\<not> was_login_executed c \<Longrightarrow>
     is_session_alive env c = (Inl (LoginRequired ''Use login method first''), c)"
  by (simp add: is_session_alive_def login_required_before_login)

lemma get_trade_receipt_requests:
  "requests (snd (get_trade_receipt env trade_id c)) =
     requests c @ [\<lparr>meth = GET,
                    url = ''https://steamcommunity.com/trade/'' @ trade_id @ ''/receipt'',
                    params = Absent, data = Absent, headers = []\<rparr>]"
  by (auto simp: get_trade_receipt_def bind_io_def http_def Let_def lift_def
      split: sum.splits prod.splits)

text \<open>
  Claim C7 says that every operation that needs the session fails with
  \<^verbatim>\<open>LoginRequired\<close> before a login, without a request. The decorated operations do
  (lemma \<open>login_required_before_login\<close>; \<^verbatim>\<open>is_session_alive\<close> below), but
  \<^verbatim>\<open>get_trade_receipt\<close>, which fetches a page of the community site through the
  session, carries no decorator. What the code does on a client that never logged in:
  \<^verbatim>\<open>get_trade_receipt\<close> hands its GET to the session and returns the items it parsed,
  while \<^verbatim>\<open>is_session_alive\<close> raises and requests nothing.
\<close>

theorem get_trade_receipt_without_login:
  "\<not> was_login_executed (SteamClient ''key'')
   \<and> get_trade_receipt demo_env ''42'' (SteamClient ''key'') =
       (Inr [],
        (SteamClient ''key'')
          \<lparr>requests := [\<lparr>meth = GET, url = ''https://steamcommunity.com/trade/42/receipt'',
                          params = Absent, data = Absent, headers = []\<rparr>]\<rparr>)
   \<and> is_session_alive demo_env (SteamClient ''key'')
       = (Inl (LoginRequired ''Use login method first''), SteamClient ''key'')"
  by (simp add: get_trade_receipt_def is_session_alive_def login_required_def SteamClient_def
      model_defs demo_defs)

subsection \<open>Calls that leave the flag alone\<close>

lemma keeps_flagD: "keeps_flag m \<Longrightarrow> m c = (r, c') \<Longrightarrow> was_login_executed c' = was_login_executed c"
  by (auto simp: keeps_flag_def)

lemma keeps_bind:
  "keeps_flag m \<Longrightarrow> (\<And>x. keeps_flag (f x)) \<Longrightarrow> keeps_flag (bind_io m f)"
  unfolding keeps_flag_def bind_io_def
  by (auto split: prod.splits sum.splits)

lemma keeps_lift [simp]: "keeps_flag (lift x)"
  by (simp add: keeps_flag_def lift_def)

lemma keeps_ret [simp]: "keeps_flag (ret x)"
  by (simp add: keeps_flag_def ret_def)

lemma keeps_raise [simp]: "keeps_flag (raise e)"
  by (simp add: keeps_flag_def raise_def)

lemma keeps_http [simp]: "keeps_flag (http env req)"
  by (auto simp: keeps_flag_def http_def Let_def split: sum.splits)

lemma keeps_time_ms [simp]: "keeps_flag (time_ms env)"
  by (auto simp: keeps_flag_def time_ms_def)

lemma keeps_fetch_rsa_params [simp]: "keeps_flag (fetch_rsa_params env self n)"
  unfolding fetch_rsa_params_def by (intro keeps_bind keeps_http keeps_lift)

lemma keeps_encrypt_password [simp]: "keeps_flag (encrypt_password env self rp)"
  by (auto simp: keeps_flag_def encrypt_password_def split: rsa_params.splits)

lemma keeps_prepare [simp]: "keeps_flag (prepare_login_request_data env self pw ts)"
  unfolding prepare_login_request_data_def by (intro keeps_bind keeps_time_ms keeps_ret)

lemma keeps_send_login_request [simp]: "keeps_flag (send_login_request env self)"
  unfolding send_login_request_def
  by (intro keeps_bind keeps_fetch_rsa_params keeps_encrypt_password keeps_lift keeps_prepare
      keeps_http)

lemma keeps_check_for_captcha [simp]: "keeps_flag (check_for_captcha env resp)"
  unfolding check_for_captcha_def by (intro keeps_bind keeps_lift) simp

lemma keeps_new_code:
  "keeps_flag (\<lambda>w. (generate_one_time_code env (codes w) secret, w\<lparr>codes := Suc (codes w)\<rparr>))"
  by (simp add: keeps_flag_def)

lemma keeps_enter_steam_guard [simp]:
  "keeps_flag (enter_steam_guard_if_necessary env self resp)"
  unfolding enter_steam_guard_if_necessary_def
  by (intro keeps_bind keeps_lift) (auto intro!: keeps_bind keeps_new_code)

lemma keeps_assert_valid_credentials [simp]: "keeps_flag (assert_valid_credentials env resp)"
  unfolding assert_valid_credentials_def by (intro keeps_bind keeps_lift) simp

lemma keeps_post_transfers [simp]: "keeps_flag (post_transfers env p us)"
  by (induction us) (auto intro!: keeps_bind split: pyval.splits)

lemma keeps_perform_redirects [simp]: "keeps_flag (perform_redirects env d)"
  unfolding perform_redirects_def by (intro keeps_bind keeps_lift) (auto intro!: keeps_bind)

lemma keeps_set_sessionid_cookies [simp]: "keeps_flag (set_sessionid_cookies env)"
  by (auto simp: keeps_flag_def set_sessionid_cookies_def Let_def split: option.splits)

lemma keeps_login: "keeps_flag (login env self)"
  unfolding login_def
  by (intro keeps_bind keeps_send_login_request keeps_check_for_captcha keeps_enter_steam_guard)
     (auto intro!: keeps_bind)

text \<open>
  Claim C10. \<^verbatim>\<open>SteamClient.login\<close> changes \<^verbatim>\<open>was_login_executed\<close> only as its last
  step. If the call raises, at whatever step, the flag is what it was; on a client that
  was not logged in, every decorated operation then still raises \<^verbatim>\<open>LoginRequired\<close>
  and leaves the client untouched. If the call returns, the flag is true, and the guard
  was loaded, its shared secret read and the executor's whole \<^verbatim>\<open>login\<close> returned
  before the flag was set.
\<close>

theorem login_sets_flag_last:
  assumes "steam_client_login env user pass descriptor (c :: 'a steam_client_scheme) = (r, c')"
  shows "(\<forall>e. r = Inl e \<longrightarrow> was_login_executed c' = was_login_executed c)
       \<and> (r = Inr () \<longrightarrow>
            was_login_executed c'
            \<and> (\<exists>g secret ex c1.
                  load_steam_guard env descriptor = Inr g
                  \<and> subscript g ''shared_secret'' = Inr secret
                  \<and> login env \<lparr>username = user, password = pass, one_time_code = [],
                                shared_secret = secret\<rparr>
                       (c\<lparr>steam_guard := Some g, client_username := Some user\<rparr>) = (Inr ex, c1)
                  \<and> c' = c1\<lparr>was_login_executed := True\<rparr>))
       \<and> (\<not> was_login_executed c \<longrightarrow>
            (\<forall>e. r = Inl e \<longrightarrow>
               (\<forall>func :: ('a steam_client_scheme, 'b) io.
                  login_required func c' = (Inl (LoginRequired ''Use login method first''), c'))))"
proof -
  have main: "(\<forall>e. r = Inl e \<longrightarrow> was_login_executed c' = was_login_executed c)
       \<and> (r = Inr () \<longrightarrow>
            was_login_executed c'
            \<and> (\<exists>g secret ex c1.
                  load_steam_guard env descriptor = Inr g
                  \<and> subscript g ''shared_secret'' = Inr secret
                  \<and> login env \<lparr>username = user, password = pass, one_time_code = [],
                                shared_secret = secret\<rparr>
                       (c\<lparr>steam_guard := Some g, client_username := Some user\<rparr>) = (Inr ex, c1)
                  \<and> c' = c1\<lparr>was_login_executed := True\<rparr>))"
  proof (cases "load_steam_guard env descriptor")
    case (Inl e)
    with assms show ?thesis
      by (auto simp: steam_client_login_def bind_io_def lift_def raise_def)
  next
    case g: (Inr g)
    let ?c1 = "c\<lparr>steam_guard := Some g, client_username := Some user\<rparr>"
    show ?thesis
    proof (cases "subscript g ''shared_secret''")
      case (Inl e)
      with assms g show ?thesis
        by (auto simp: steam_client_login_def bind_io_def lift_def raise_def)
    next
      case s: (Inr secret)
      let ?ex = "\<lparr>username = user, password = pass, one_time_code = [], shared_secret = secret\<rparr>"
      obtain r2 c2 where l: "login env ?ex ?c1 = (r2, c2)"
        by (cases "login env ?ex ?c1")
      from keeps_flagD [OF keeps_login l]
      have k: "was_login_executed c2 = was_login_executed c" by simp
      show ?thesis
      proof (cases r2)
        case (Inl e)
        with assms g s l k show ?thesis
          by (auto simp: steam_client_login_def bind_io_def lift_def)
      next
        case (Inr ex)
        with assms g s l show ?thesis
          by (auto simp: steam_client_login_def bind_io_def lift_def)
      qed
    qed
  qed
  then show ?thesis
    by (auto simp: login_required_before_login)
qed

lemma demo_client_logins:
  "fst (steam_client_login demo_env ''mallory'' ''guess'' ''guard.json'' (SteamClient ''key''))
     = Inl (InvalidCredentials ''<successmessage>'')"
  "fst (steam_client_login demo_env ''alice'' ''pw'' ''guard.json'' (SteamClient ''key'')) = Inr ()"
  by (simp_all add: steam_client_login_def SteamClient_def login_defs model_defs demo_defs)

theorem login_sets_flag_last_witness:
  "\<not> was_login_executed
       (snd (steam_client_login demo_env ''mallory'' ''guess'' ''guard.json'' (SteamClient ''key'')))
   \<and> is_session_alive demo_env
       (snd (steam_client_login demo_env ''mallory'' ''guess'' ''guard.json'' (SteamClient ''key'')))
     = (Inl (LoginRequired ''Use login method first''),
        snd (steam_client_login demo_env ''mallory'' ''guess'' ''guard.json'' (SteamClient ''key'')))
   \<and> was_login_executed
       (snd (steam_client_login demo_env ''alice'' ''pw'' ''guard.json'' (SteamClient ''key'')))"
proof -
  let ?m = "steam_client_login demo_env ''mallory'' ''guess'' ''guard.json'' (SteamClient ''key'')"
  let ?a = "steam_client_login demo_env ''alice'' ''pw'' ''guard.json'' (SteamClient ''key'')"
  have fresh: "\<not> was_login_executed (SteamClient ''key'')"
    by (simp add: SteamClient_def)
  have m: "?m = (Inl (InvalidCredentials ''<successmessage>''), snd ?m)"
    and a: "?a = (Inr (), snd ?a)"
    using demo_client_logins by (simp_all add: prod_eq_iff)
  from login_sets_flag_last [OF m] fresh
  have "\<not> was_login_executed (snd ?m)"
    and "login_required (is_session_alive_body demo_env) (snd ?m)
           = (Inl (LoginRequired ''Use login method first''), snd ?m)"
    by auto
  moreover from login_sets_flag_last [OF a] have "was_login_executed (snd ?a)"
    by simp
  ultimately show ?thesis by (simp add: is_session_alive_def)
qed

end
